theory Spec2Isabelle
  imports Complex_Main "HOL-Library.Sublist"
begin

section \<open>Texts and character classes\<close>

text \<open>
  A JavaScript string is a sequence of UTF-16 code units. The embedding takes a text to be
  a \<^typ>\<open>string\<close> whose characters are the code units 0..255 (ASCII and Latin-1), which
  covers every text the claims name. On these code units the ECMAScript classes used by
  \<^verbatim>\<open>assets/app.js\<close> are the following finite tables.
\<close>

definition ascii_lower :: string where
  "ascii_lower = ''abcdefghijklmnopqrstuvwxyz''"

definition ascii_upper :: string where
  "ascii_upper = ''ABCDEFGHIJKLMNOPQRSTUVWXYZ''"

definition ascii_digits :: string where
  "ascii_digits = ''0123456789''"

text \<open>The capital letters of Latin-1, U+00C0..U+00DE without the multiplication sign U+00D7,
  and their small counterparts U+00E0..U+00FE without the division sign U+00F7.\<close>

definition latin1_upper :: string where
  "latin1_upper =
     [CHR 0xC0, CHR 0xC1, CHR 0xC2, CHR 0xC3, CHR 0xC4, CHR 0xC5, CHR 0xC6, CHR 0xC7,
      CHR 0xC8, CHR 0xC9, CHR 0xCA, CHR 0xCB, CHR 0xCC, CHR 0xCD, CHR 0xCE, CHR 0xCF,
      CHR 0xD0, CHR 0xD1, CHR 0xD2, CHR 0xD3, CHR 0xD4, CHR 0xD5, CHR 0xD6,
      CHR 0xD8, CHR 0xD9, CHR 0xDA, CHR 0xDB, CHR 0xDC, CHR 0xDD, CHR 0xDE]"

definition latin1_lower :: string where
  "latin1_lower =
     [CHR 0xE0, CHR 0xE1, CHR 0xE2, CHR 0xE3, CHR 0xE4, CHR 0xE5, CHR 0xE6, CHR 0xE7,
      CHR 0xE8, CHR 0xE9, CHR 0xEA, CHR 0xEB, CHR 0xEC, CHR 0xED, CHR 0xEE, CHR 0xEF,
      CHR 0xF0, CHR 0xF1, CHR 0xF2, CHR 0xF3, CHR 0xF4, CHR 0xF5, CHR 0xF6,
      CHR 0xF8, CHR 0xF9, CHR 0xFA, CHR 0xFB, CHR 0xFC, CHR 0xFD, CHR 0xFE]"

text \<open>\<^verbatim>\<open>String.prototype.toLowerCase\<close>, one code unit at a time.\<close>

definition lower_char :: "char \<Rightarrow> char" where
  "lower_char c =
     (case map_of (zip (ascii_upper @ latin1_upper) (ascii_lower @ latin1_lower)) c of
        Some l \<Rightarrow> l
      | None \<Rightarrow> c)"

definition toLowerCase :: "string \<Rightarrow> string" where
  "toLowerCase s = map lower_char s"

text \<open>The regular expressions all carry the flag \<^verbatim>\<open>i\<close> and not \<^verbatim>\<open>u\<close>: two code units
  match when their canonical (upper-case) forms agree, and a code unit from 128 on never
  canonicalises to an ASCII one. The patterns hold ASCII characters only, so the ASCII part
  of the canonical form is all that is ever compared.\<close>

definition canonicalize :: "char \<Rightarrow> char" where
  "canonicalize c = (case map_of (zip ascii_lower ascii_upper) c of Some u \<Rightarrow> u | None \<Rightarrow> c)"

text \<open>\<^verbatim>\<open>\w\<close> is \<^verbatim>\<open>[A-Za-z0-9_]\<close>.\<close>

definition is_word_char :: "char \<Rightarrow> bool" where
  "is_word_char c \<longleftrightarrow> c \<in> set (ascii_lower @ ascii_upper @ ascii_digits @ ''_'')"

text \<open>\<^verbatim>\<open>\s\<close> (and what \<^verbatim>\<open>trim\<close> strips): tab, line feed, vertical tab, form feed,
  carriage return, space and the no-break space.\<close>

definition is_space_char :: "char \<Rightarrow> bool" where
  "is_space_char c \<longleftrightarrow>
     c \<in> set [CHR 0x09, CHR 0x0A, CHR 0x0B, CHR 0x0C, CHR 0x0D, CHR 0x20, CHR 0xA0]"

text \<open>\<^verbatim>\<open>.\<close> matches every code unit but the line terminators.\<close>

definition is_line_terminator :: "char \<Rightarrow> bool" where
  "is_line_terminator c \<longleftrightarrow> c \<in> set [CHR 0x0A, CHR 0x0D]"

definition trim :: "string \<Rightarrow> string" where
  "trim s = rev (dropWhile is_space_char (rev (dropWhile is_space_char s)))"


section \<open>Regular expressions\<close>

text \<open>
  The fragment of ECMAScript regular expressions that the rule tables of
  \<^verbatim>\<open>findBestMatchKeyword\<close> use: literal characters, \<^verbatim>\<open>.\<close>, \<^verbatim>\<open>\s\<close>, the word-boundary
  assertion \<^verbatim>\<open>\b\<close>, concatenation, alternation, \<^verbatim>\<open>?\<close> and \<^verbatim>\<open>*\<close>. None of the patterns
  has a back-reference or a look-around, so whether \<^verbatim>\<open>test\<close> succeeds does not depend on
  the order in which a backtracking matcher tries the alternatives.
\<close>

datatype regex =
    Eps
  | Chr char
  | Dot
  | WS
  | WordB
  | Seq regex regex
  | Alt regex regex
  | Star regex

definition Opt :: "regex \<Rightarrow> regex" where
  "Opt r = Alt r Eps"

fun lit :: "string \<Rightarrow> regex" where
  "lit [] = Eps"
| "lit [c] = Chr c"
| "lit (c # cs) = Seq (Chr c) (lit cs)"

fun seqs :: "regex list \<Rightarrow> regex" where
  "seqs [] = Eps"
| "seqs [r] = r"
| "seqs (r # rs) = Seq r (seqs rs)"

fun alts :: "regex list \<Rightarrow> regex" where
  "alts [] = Eps"
| "alts [r] = r"
| "alts (r # rs) = Alt r (alts rs)"

text \<open>A position in the text is the code unit just before it (none at the start) and the
  rest of the text from it on; \<^verbatim>\<open>\b\<close> needs both sides.\<close>

type_synonym position = "char option \<times> string"

definition word_before :: "position \<Rightarrow> bool" where
  "word_before st = (case fst st of None \<Rightarrow> False | Some c \<Rightarrow> is_word_char c)"

definition word_after :: "position \<Rightarrow> bool" where
  "word_after st = (case snd st of [] \<Rightarrow> False | c # _ \<Rightarrow> is_word_char c)"

definition one_char :: "(char \<Rightarrow> bool) \<Rightarrow> position \<Rightarrow> position list" where
  "one_char P st = (case snd st of [] \<Rightarrow> [] | c # cs \<Rightarrow> if P c then [(Some c, cs)] else [])"

text \<open>An iteration of \<^verbatim>\<open>*\<close> that consumes nothing is rejected by the ECMAScript matcher, so
  there are at most as many iterations as code units left; the greedy order (more iterations
  first) is kept.\<close>

fun star_iter :: "(position \<Rightarrow> position list) \<Rightarrow> nat \<Rightarrow> position \<Rightarrow> position list" where
  "star_iter f 0 st = [st]"
| "star_iter f (Suc n) st =
     concat (map (star_iter f n) (filter (\<lambda>st'. length (snd st') < length (snd st)) (f st)))
     @ [st]"

text \<open>All the positions at which a match of the expression that starts at the given position
  can end, in the order a backtracking matcher finds them.\<close>

fun step :: "regex \<Rightarrow> position \<Rightarrow> position list" where
  "step Eps st = [st]"
| "step (Chr c) st = one_char (\<lambda>x. canonicalize x = canonicalize c) st"
| "step Dot st = one_char (\<lambda>x. \<not> is_line_terminator x) st"
| "step WS st = one_char is_space_char st"
| "step WordB st = (if word_before st \<noteq> word_after st then [st] else [])"
| "step (Seq r1 r2) st = concat (map (step r2) (step r1 st))"
| "step (Alt r1 r2) st = step r1 st @ step r2 st"
| "step (Star r) st = star_iter (step r) (length (snd st)) st"

text \<open>\<^verbatim>\<open>RegExp.prototype.test\<close> without the flags \<^verbatim>\<open>g\<close> and \<^verbatim>\<open>y\<close>: a match is tried at
  every start index from 0 to the length of the text.\<close>

fun search :: "regex \<Rightarrow> char option \<Rightarrow> string \<Rightarrow> bool" where
  "search r p [] \<longleftrightarrow> step r (p, []) \<noteq> []"
| "search r p (c # cs) \<longleftrightarrow> step r (p, c # cs) \<noteq> [] \<or> search r (Some c) cs"

definition regex_test :: "regex \<Rightarrow> string \<Rightarrow> bool" where
  "regex_test r s = search r None s"


section \<open>The result corpus\<close>

text \<open>
  One pre-computed regression of \<^verbatim>\<open>precomputed/results.json\<close>, with the fields that
  \<^verbatim>\<open>assets/app.js\<close> reads. A field that is \<^verbatim>\<open>null\<close> in the JSON document is \<open>None\<close>.
  JavaScript numbers are binary floating-point numbers, each of them a rational number.
\<close>

record analysis =
  outcome :: string
  specification_of :: string
  state_filter :: "string option"
  time_window :: "(nat \<times> nat) option"
  weighted :: bool
  cluster :: string
  success :: bool
  coefficient :: rat
  std_error :: rat
  p_value :: rat
  ci_lower :: "rat option"
  ci_upper :: "rat option"
  n_obs :: nat
  n_clusters :: nat
  description :: "string option"
  filter_desc :: "string option"

text \<open>Truthiness of an optional string: \<^verbatim>\<open>null\<close> and the empty string are falsy.\<close>

definition truthy :: "string option \<Rightarrow> bool" where
  "truthy v = (case v of None \<Rightarrow> False | Some s \<Rightarrow> s \<noteq> [])"

definition SIMILARITY_THRESHOLD :: rat where
  "SIMILARITY_THRESHOLD = 0.5"

definition MAX_QUERIES_PER_HOUR :: nat where
  "MAX_QUERIES_PER_HOUR = 100"


section \<open>The keyword matcher\<close>

subsection \<open>Rule tables\<close>

record pattern =
  pat_regex :: regex
  pat_filter :: "string option"
  pat_time :: "(nat \<times> nat) option"
  pat_outcome :: "string option"
  pat_spec :: "string option"
  pat_weighted :: "bool option"

definition rule :: "regex \<Rightarrow> pattern" where
  "rule r = \<lparr>pat_regex = r, pat_filter = None, pat_time = None, pat_outcome = None,
             pat_spec = None, pat_weighted = None\<rparr>"

definition relevantOutcomes :: "string list" where
  "relevantOutcomes =
     [''dem_share'', ''turnout'', ''dem_share_pres'', ''dem_share_gov'', ''dem_share_sen'']"

text \<open>The regular expressions of the two tables, each under a name of its own, in the order
  of the source.\<close>

text \<open>\<^verbatim>\<open>/exclud(e|ing)\s*(california|ca)\b/i\<close>\<close>

definition rx_exclude_CA :: regex where
  "rx_exclude_CA =
     seqs [lit ''exclud'', alts [lit ''e'', lit ''ing''], Star WS,
           alts [lit ''california'', lit ''ca''], WordB]"

text \<open>\<^verbatim>\<open>/exclud(e|ing)\s*(utah|ut)\b/i\<close>\<close>

definition rx_exclude_UT :: regex where
  "rx_exclude_UT =
     seqs [lit ''exclud'', alts [lit ''e'', lit ''ing''], Star WS,
           alts [lit ''utah'', lit ''ut''], WordB]"

text \<open>\<^verbatim>\<open>/exclud(e|ing)\s*(washington|wa)\b/i\<close>\<close>

definition rx_exclude_WA :: regex where
  "rx_exclude_WA =
     seqs [lit ''exclud'', alts [lit ''e'', lit ''ing''], Star WS,
           alts [lit ''washington'', lit ''wa''], WordB]"

text \<open>\<^verbatim>\<open>/excl\.?\s*(ca|california)\b/i\<close>\<close>

definition rx_excl_CA :: regex where
  "rx_excl_CA =
     seqs [lit ''excl'', Opt (Chr CHR ''.''), Star WS,
           alts [lit ''ca'', lit ''california''], WordB]"

text \<open>\<^verbatim>\<open>/excl\.?\s*(ut|utah)\b/i\<close>\<close>

definition rx_excl_UT :: regex where
  "rx_excl_UT =
     seqs [lit ''excl'', Opt (Chr CHR ''.''), Star WS,
           alts [lit ''ut'', lit ''utah''], WordB]"

text \<open>\<^verbatim>\<open>/excl\.?\s*(wa|washington)\b/i\<close>\<close>

definition rx_excl_WA :: regex where
  "rx_excl_WA =
     seqs [lit ''excl'', Opt (Chr CHR ''.''), Star WS,
           alts [lit ''wa'', lit ''washington''], WordB]"

text \<open>\<^verbatim>\<open>/original|1996.?2018/i\<close>\<close>

definition rx_original :: regex where
  "rx_original =
     alts [lit ''original'', seqs [lit ''1996'', Opt Dot, lit ''2018'']]"

text \<open>\<^verbatim>\<open>/post.?2018|after 2018|2018.?2024/i\<close>\<close>

definition rx_post_2018 :: regex where
  "rx_post_2018 =
     alts [seqs [lit ''post'', Opt Dot, lit ''2018''], lit ''after 2018'',
           seqs [lit ''2018'', Opt Dot, lit ''2024'']]"

text \<open>\<^verbatim>\<open>/without 2024|exclud.*2024|1996.?2022|excl.*2024/i\<close>\<close>

definition rx_without_2024 :: regex where
  "rx_without_2024 =
     alts [lit ''without 2024'', seqs [lit ''exclud'', Star Dot, lit ''2024''],
           seqs [lit ''1996'', Opt Dot, lit ''2022''],
           seqs [lit ''excl'', Star Dot, lit ''2024'']]"

text \<open>\<^verbatim>\<open>/turn(out)?/i\<close>\<close>

definition rx_turnout :: regex where
  "rx_turnout =
     seqs [lit ''turn'', Opt (lit ''out'')]"

text \<open>\<^verbatim>\<open>/pres(ident(ial)?)?/i\<close>\<close>

definition rx_pres :: regex where
  "rx_pres =
     seqs [lit ''pres'', Opt (seqs [lit ''ident'', Opt (lit ''ial'')])]"

text \<open>\<^verbatim>\<open>/gov(ernor)?/i\<close>\<close>

definition rx_gov :: regex where
  "rx_gov =
     seqs [lit ''gov'', Opt (lit ''ernor'')]"

text \<open>\<^verbatim>\<open>/sen(at(e|or))?/i\<close>\<close>

definition rx_sen :: regex where
  "rx_sen =
     seqs [lit ''sen'', Opt (seqs [lit ''at'', alts [lit ''e'', lit ''or'']])]"

text \<open>\<^verbatim>\<open>/vote\s*share|partisan|democrat/i\<close>\<close>

definition rx_vote_share :: regex where
  "rx_vote_share =
     alts [seqs [lit ''vote'', Star WS, lit ''share''], lit ''partisan'',
           lit ''democrat'']"

text \<open>\<^verbatim>\<open>/linear/i\<close>\<close>

definition rx_linear :: regex where
  "rx_linear =
     lit ''linear''"

text \<open>\<^verbatim>\<open>/quadratic|quad\b/i\<close>\<close>

definition rx_quadratic :: regex where
  "rx_quadratic =
     alts [lit ''quadratic'', seqs [lit ''quad'', WordB]]"

text \<open>\<^verbatim>\<open>/basic|simple/i\<close>\<close>

definition rx_basic :: regex where
  "rx_basic =
     alts [lit ''basic'', lit ''simple'']"

text \<open>\<^verbatim>\<open>/weight(ed)?|population/i\<close>\<close>

definition rx_weighted :: regex where
  "rx_weighted =
     alts [seqs [lit ''weight'', Opt (lit ''ed'')], lit ''population'']"

text \<open>\<^verbatim>\<open>/\b(california|ca)\b/i\<close>\<close>

definition rx_state_CA :: regex where
  "rx_state_CA =
     seqs [WordB, alts [lit ''california'', lit ''ca''], WordB]"

text \<open>\<^verbatim>\<open>/\b(utah|ut)\b/i\<close>\<close>

definition rx_state_UT :: regex where
  "rx_state_UT =
     seqs [WordB, alts [lit ''utah'', lit ''ut''], WordB]"

text \<open>\<^verbatim>\<open>/\b(washington|wa)\b/i\<close>\<close>

definition rx_state_WA :: regex where
  "rx_state_WA =
     seqs [WordB, alts [lit ''washington'', lit ''wa''], WordB]"

definition patterns :: "pattern list" where
  "patterns =
    [ (rule rx_exclude_CA)\<lparr>pat_filter := Some ''exclude_CA''\<rparr>,
      (rule rx_exclude_UT)\<lparr>pat_filter := Some ''exclude_UT''\<rparr>,
      (rule rx_exclude_WA)\<lparr>pat_filter := Some ''exclude_WA''\<rparr>,
      (rule rx_excl_CA)\<lparr>pat_filter := Some ''exclude_CA''\<rparr>,
      (rule rx_excl_UT)\<lparr>pat_filter := Some ''exclude_UT''\<rparr>,
      (rule rx_excl_WA)\<lparr>pat_filter := Some ''exclude_WA''\<rparr>,
      (rule rx_original)\<lparr>pat_time := Some (1996, 2018)\<rparr>,
      (rule rx_post_2018)\<lparr>pat_time := Some (2018, 2024)\<rparr>,
      (rule rx_without_2024)\<lparr>pat_time := Some (1996, 2022)\<rparr>,
      (rule rx_turnout)\<lparr>pat_outcome := Some ''turnout''\<rparr>,
      (rule rx_pres)\<lparr>pat_outcome := Some ''dem_share_pres''\<rparr>,
      (rule rx_gov)\<lparr>pat_outcome := Some ''dem_share_gov''\<rparr>,
      (rule rx_sen)\<lparr>pat_outcome := Some ''dem_share_sen''\<rparr>,
      (rule rx_vote_share)\<lparr>pat_outcome := Some ''dem_share''\<rparr>,
      (rule rx_linear)\<lparr>pat_spec := Some ''linear''\<rparr>,
      (rule rx_quadratic)\<lparr>pat_spec := Some ''quadratic''\<rparr>,
      (rule rx_basic)\<lparr>pat_spec := Some ''basic''\<rparr>,
      (rule rx_weighted)\<lparr>pat_weighted := Some True\<rparr> ]"

definition statePatterns :: "pattern list" where
  "statePatterns =
    [ (rule rx_state_CA)\<lparr>pat_filter := Some ''CA''\<rparr>,
      (rule rx_state_UT)\<lparr>pat_filter := Some ''UT''\<rparr>,
      (rule rx_state_WA)\<lparr>pat_filter := Some ''WA''\<rparr> ]"

subsection \<open>Interpreting the query\<close>

record targets =
  targetFilter :: "string option"
  targetTime :: "(nat \<times> nat) option"
  targetOutcome :: "string option"
  targetWeighted :: bool
  targetSpec :: string

definition initial_targets :: targets where
  "initial_targets = \<lparr>targetFilter = None, targetTime = None, targetOutcome = None,
                       targetWeighted = False, targetSpec = ''basic''\<rparr>"

text \<open>The body of the first loop, for one rule: the five assignments in the order of the
  source, each under its own guard.\<close>

definition apply_pattern :: "string \<Rightarrow> targets \<Rightarrow> pattern \<Rightarrow> targets" where
  "apply_pattern queryLower t p =
     (if regex_test (pat_regex p) queryLower then
        (let t1 = (if truthy (pat_filter p) then t\<lparr>targetFilter := pat_filter p\<rparr> else t);
             t2 = (if pat_time p \<noteq> None then t1\<lparr>targetTime := pat_time p\<rparr> else t1);
             t3 = (if truthy (pat_outcome p) \<and> \<not> truthy (targetOutcome t2)
                   then t2\<lparr>targetOutcome := pat_outcome p\<rparr> else t2);
             t4 = (if pat_weighted p = Some True then t3\<lparr>targetWeighted := True\<rparr> else t3);
             t5 = (case pat_spec p of
                     Some s \<Rightarrow> if s \<noteq> [] then t4\<lparr>targetSpec := s\<rparr> else t4
                   | None \<Rightarrow> t4)
         in t5)
      else t)"

definition first_pass :: "string \<Rightarrow> pattern list \<Rightarrow> targets \<Rightarrow> targets" where
  "first_pass queryLower ps t = foldl (apply_pattern queryLower) t ps"

text \<open>\<^verbatim>\<open>!targetFilter || !targetFilter.startsWith('exclude_')\<close>\<close>

definition not_exclude :: "string option \<Rightarrow> bool" where
  "not_exclude f = (case f of None \<Rightarrow> True | Some s \<Rightarrow> s = [] \<or> \<not> prefix ''exclude_'' s)"

text \<open>The second loop leaves at the first state pattern that matches.\<close>

fun state_loop :: "string \<Rightarrow> pattern list \<Rightarrow> targets \<Rightarrow> targets" where
  "state_loop queryLower [] t = t"
| "state_loop queryLower (p # ps) t =
     (if regex_test (pat_regex p) queryLower then
        (if not_exclude (targetFilter t) then t\<lparr>targetFilter := pat_filter p\<rparr> else t)
      else state_loop queryLower ps t)"

definition second_pass :: "string \<Rightarrow> targets \<Rightarrow> targets" where
  "second_pass queryLower t =
     (if not_exclude (targetFilter t) then state_loop queryLower statePatterns t else t)"

definition interpret_query :: "string \<Rightarrow> targets" where
  "interpret_query query =
     (let queryLower = toLowerCase query
      in second_pass queryLower (first_pass queryLower patterns initial_targets))"

subsection \<open>Scoring the corpus\<close>

definition score_of :: "targets \<Rightarrow> analysis \<Rightarrow> nat" where
  "score_of t a =
     (if truthy (targetFilter t) \<and> state_filter a = targetFilter t then 10
      else if \<not> truthy (targetFilter t) \<and> \<not> truthy (state_filter a) then 2 else 0)
   + (if targetTime t \<noteq> None \<and> time_window a = targetTime t then 10
      else if targetTime t = None \<and> time_window a = None then 2 else 0)
   + (if truthy (targetOutcome t) \<and> Some (outcome a) = targetOutcome t then 10
      else if \<not> truthy (targetOutcome t) \<and> outcome a = ''dem_share'' then 1 else 0)
   + (if targetWeighted t \<and> weighted a then 5
      else if \<not> targetWeighted t \<and> \<not> weighted a then 1 else 0)
   + (if specification_of a = targetSpec t then 3 else 0)"

text \<open>The scoring loop with its two variables \<^verbatim>\<open>bestMatch\<close> and \<^verbatim>\<open>bestScore\<close>: a record
  replaces the best one only when its score is strictly higher.\<close>

fun score_loop :: "targets \<Rightarrow> analysis list \<Rightarrow> analysis option \<times> nat \<Rightarrow> analysis option \<times> nat"
  where
  "score_loop t [] best = best"
| "score_loop t (a # as) (bestMatch, bestScore) =
     (if outcome a \<notin> set relevantOutcomes then score_loop t as (bestMatch, bestScore)
      else if score_of t a > bestScore then score_loop t as (Some a, score_of t a)
      else score_loop t as (bestMatch, bestScore))"

record match_result =
  match_analysis :: "analysis option"
  similarity :: rat

definition maxPossibleScore :: nat where
  "maxPossibleScore = 30"

definition findBestMatchKeyword :: "analysis list \<Rightarrow> string \<Rightarrow> match_result" where
  "findBestMatchKeyword analyses query =
     (let (bestMatch, bestScore) = score_loop (interpret_query query) analyses (None, 0)
      in \<lparr>match_analysis = bestMatch,
          similarity = of_nat bestScore / of_nat maxPossibleScore\<rparr>)"



section \<open>Looking records up\<close>

text \<open>\<^verbatim>\<open>findAnalysis\<close>: the first record with the given outcome, specification, state filter
  and time window that is unweighted and clustered by county. The two time windows are
  compared through \<^verbatim>\<open>JSON.stringify\<close>, which is equality of the pairs, \<^verbatim>\<open>null\<close> being equal
  to \<^verbatim>\<open>null\<close> only.\<close>

definition findAnalysis ::
  "analysis list \<Rightarrow> string \<Rightarrow> string \<Rightarrow> string option \<Rightarrow> (nat \<times> nat) option \<Rightarrow> analysis option"
  where
  "findAnalysis analyses oc sp stateFilter timeWindow =
     find (\<lambda>a. outcome a = oc \<and> specification_of a = sp \<and> state_filter a = stateFilter \<and>
               time_window a = timeWindow \<and> \<not> weighted a \<and> cluster a = ''county'') analyses"

definition getBaseline :: "analysis list \<Rightarrow> string \<Rightarrow> analysis option" where
  "getBaseline analyses oc =
     (let baselineOutcome = (if oc = ''turnout'' then ''turnout'' else ''dem_share'')
      in findAnalysis analyses baselineOutcome ''quadratic'' None None)"

definition OUTCOME_LABELS :: "(string \<times> string) list" where
  "OUTCOME_LABELS =
     [(''dem_share'', ''Democratic Vote Share''),
      (''dem_share_pres'', ''Democratic Vote Share (Presidential)''),
      (''dem_share_gov'', ''Democratic Vote Share (Governor)''),
      (''dem_share_sen'', ''Democratic Vote Share (Senate)''),
      (''turnout'', ''Voter Turnout'')]"

text \<open>\<^verbatim>\<open>OUTCOME_LABELS[analysis.outcome] || analysis.outcome\<close>\<close>

definition outcomeLabel :: "analysis \<Rightarrow> string" where
  "outcomeLabel a = (case map_of OUTCOME_LABELS (outcome a) of Some l \<Rightarrow> l | None \<Rightarrow> outcome a)"

text \<open>\<^verbatim>\<open>v || d\<close> for an optional string \<open>v\<close>.\<close>

definition or_else :: "string option \<Rightarrow> string \<Rightarrow> string" where
  "or_else v d = (case v of None \<Rightarrow> d | Some s \<Rightarrow> if s \<noteq> [] then s else d)"


section \<open>Formatting numbers and cells\<close>

function digits :: "nat \<Rightarrow> string" where
  "digits n =
     (if n < 10 then [ascii_digits ! n] else digits (n div 10) @ [ascii_digits ! (n mod 10)])"
  by pat_completeness auto
termination
  by (relation "measure (\<lambda>n. n)") auto

declare digits.simps [simp del]

text \<open>
  \<^verbatim>\<open>Number.prototype.toFixed\<close> on a finite number below \<open>10\<^sup>2\<^sup>1\<close> in absolute value (from
  there on ECMAScript switches to the exponent notation, which is outside the embedding):
  the sign, then the integer \<open>n\<close> for which \<open>n / 10\<^sup>f\<close> is nearest to the absolute value,
  the larger one of two, padded with zeros to at least \<open>f + 1\<close> digits and split by a point
  before the last \<open>f\<close>.
\<close>

definition toFixed :: "nat \<Rightarrow> rat \<Rightarrow> string" where
  "toFixed f x =
     (let s = (if x < 0 then ''-'' else []);
          n = nat \<lfloor>\<bar>x\<bar> * 10 ^ f + 1 / 2\<rfloor>;
          m = (if n = 0 then ''0'' else digits n);
          k = length m;
          m' = (if k \<le> f then replicate (f + 1 - k) CHR ''0'' @ m else m);
          k' = length m'
      in if f \<noteq> 0 then s @ take (k' - f) m' @ ''.'' @ drop (k' - f) m' else s @ m)"

definition getSignificanceStars :: "analysis option \<Rightarrow> string" where
  "getSignificanceStars analysis =
     (case analysis of
        None \<Rightarrow> []
      | Some a \<Rightarrow>
          (let p = p_value a
           in if p < 0.01 then ''***'' else if p < 0.05 then ''**''
              else if p < 0.1 then ''*'' else []))"

definition getSignificanceDescription :: "rat \<Rightarrow> string" where
  "getSignificanceDescription pValue =
     (if pValue < 0.01 then ''p < 0.01, highly significant''
      else if pValue < 0.05 then ''p < 0.05, significant''
      else if pValue < 0.1 then ''p < 0.1, marginally significant''
      else ''not statistically significant'')"




section \<open>The coefficient plot\<close>

text \<open>
  \<^verbatim>\<open>renderCoefPlot\<close> writes an SVG picture into the element \<^verbatim>\<open>coef-plot\<close>. The embedding
  keeps what is drawn: per row the label, the vertical position, the ends of the interval
  line and the point on the horizontal scale, the class suffix and the printed value; the
  zero line, the ticks and the caption. Positions are computed on rational numbers, where
  the source computes on floating-point numbers.
\<close>

record plot_row =
  row_label :: string
  row_y :: nat
  x_lower :: rat
  x_upper :: rat
  x_point :: rat
  sig_class :: string
  value_text :: string

record coef_plot =
  plot_width :: nat
  plot_height :: nat
  zero_x :: rat
  plot_rows :: "plot_row list"
  ticks :: "(rat \<times> string) list"
  caption :: string

text \<open>\<^verbatim>\<open>a.ci_lower || (a.coefficient - 1.96 * a.std_error)\<close>: a bound that is missing or
  zero is falsy and gives way to the derived one.\<close>

definition lower_of :: "analysis \<Rightarrow> rat" where
  "lower_of a =
     (case ci_lower a of
        Some v \<Rightarrow> if v \<noteq> 0 then v else coefficient a - 1.96 * std_error a
      | None \<Rightarrow> coefficient a - 1.96 * std_error a)"

definition upper_of :: "analysis \<Rightarrow> rat" where
  "upper_of a =
     (case ci_upper a of
        Some v \<Rightarrow> if v \<noteq> 0 then v else coefficient a + 1.96 * std_error a
      | None \<Rightarrow> coefficient a + 1.96 * std_error a)"

text \<open>\<^verbatim>\<open>[baseline, current].filter(a => a)\<close>\<close>

definition present :: "analysis option list \<Rightarrow> analysis list" where
  "present xs = concat (map (\<lambda>x. case x of None \<Rightarrow> [] | Some a \<Rightarrow> [a]) xs)"

definition draw_row :: "(rat \<Rightarrow> rat) \<Rightarrow> string \<Rightarrow> nat \<Rightarrow> analysis \<Rightarrow> plot_row" where
  "draw_row sc label y a =
     \<lparr>row_label = label, row_y = y,
      x_lower = sc (lower_of a), x_upper = sc (upper_of a),
      x_point = sc (coefficient a),
      sig_class = (if p_value a < 0.05 then [] else '' not-significant''),
      value_text = toFixed 4 (coefficient a) @ getSignificanceStars (Some a)\<rparr>"

text \<open>The dimensions of the picture and the function \<^verbatim>\<open>scale\<close>, which \<^verbatim>\<open>renderCoefPlot\<close>
  declares locally; the scale closes over the two ends of the axis, here its first two
  arguments.\<close>

definition width :: nat where
  "width = 400"

definition margin_left :: nat where
  "margin_left = 160"

definition margin_right :: nat where
  "margin_right = 80"

definition margin_top :: nat where
  "margin_top = 20"

definition plotWidth :: nat where
  "plotWidth = width - margin_left - margin_right"

definition scale :: "rat \<Rightarrow> rat \<Rightarrow> rat \<Rightarrow> rat" where
  "scale minVal maxVal val =
     of_nat margin_left + ((val - minVal) / (maxVal - minVal)) * of_nat plotWidth"

definition row1Y :: nat where
  "row1Y = margin_top + 15"

definition row2Y :: nat where
  "row2Y = margin_top + 40"

text \<open>The first argument says whether the page has the element \<^verbatim>\<open>coef-plot\<close>; without it
  the function returns at once. \<open>None\<close> stands for a baseline that is \<^verbatim>\<open>undefined\<close> and
  for a current record that is \<^verbatim>\<open>null\<close>.\<close>

definition renderCoefPlot ::
  "bool \<Rightarrow> analysis option \<Rightarrow> analysis option \<Rightarrow> string \<Rightarrow> string option \<Rightarrow> coef_plot option"
  where
  "renderCoefPlot container baseline current label filterDesc =
     (if \<not> container then None
      else
        (let showCurrent = (current \<noteq> None);
             allCoefs = present [baseline, current];
             allLower = map lower_of allCoefs;
             allUpper = map upper_of allCoefs;
             minVal = foldr min allLower 0 - 0.01;
             maxVal = foldr max allUpper 0 + 0.01;
             height = (if showCurrent then 100 else 70);
             baselineRow = (case baseline of
                              None \<Rightarrow> []
                            | Some b \<Rightarrow>
                                [draw_row (scale minVal maxVal) ''Baseline (quad. trends)''
                                   row1Y b]);
             currentRow = (case current of
                             None \<Rightarrow> []
                           | Some c \<Rightarrow>
                               [draw_row (scale minVal maxVal)
                                  (or_else filterDesc ''Current specification'') row2Y c])
         in Some \<lparr>plot_width = width, plot_height = height, zero_x = scale minVal maxVal 0,
                  plot_rows = baselineRow @ currentRow,
                  ticks = map (\<lambda>tick. (scale minVal maxVal tick, toFixed 3 tick))
                            [minVal, 0, maxVal],
                  caption = label\<rparr>))"

definition updateCoefPlot ::
  "bool \<Rightarrow> analysis option \<Rightarrow> analysis \<Rightarrow> string \<Rightarrow> coef_plot option" where
  "updateCoefPlot container baseline a label =
     renderCoefPlot container baseline (Some a) label
       (Some (or_else (filter_desc a) ''This specification''))"

definition initCoefPlot :: "bool \<Rightarrow> analysis list \<Rightarrow> coef_plot option" where
  "initCoefPlot container analyses =
     (case getBaseline analyses ''dem_share'' of
        None \<Rightarrow> None
      | Some demBaseline \<Rightarrow>
          renderCoefPlot container (Some demBaseline) None ''Democratic Vote Share'' None)"


section \<open>Answering a query\<close>

definition availableAnalyses :: string where
  "availableAnalyses =
     ''\<newline>Available analyses include:''
   @ ''\<newline>- Different state samples: CA only, UT only, WA only, or excluding any state''
   @ ''\<newline>- Different time periods: 1996-2018 (original), 1996-2024 (extended), ''
   @ ''2018-2024 (post-2018), 1996-2022''
   @ ''\<newline>- Different specifications: Basic, Linear Trends, Quadratic Trends''
   @ ''\<newline>- Population-weighted estimates''
   @ ''\<newline>- Presidential, Governor, or Senate elections separately\<newline>''"

text \<open>\<^verbatim>\<open>match.analysis?.description || 'None found'\<close>: the optional chaining makes a
  \<^verbatim>\<open>null\<close> record a falsy value, as a missing or empty description is.\<close>

definition bestAvailable :: "match_result \<Rightarrow> string" where
  "bestAvailable m =
     (case match_analysis m of
        None \<Rightarrow> ''None found''
      | Some a \<Rightarrow> or_else (description a) ''None found'')"

text \<open>The system prompt that \<^verbatim>\<open>generateNoMatchResponse\<close> sends to the narration endpoint.\<close>

definition noMatchPrompt :: "match_result \<Rightarrow> string" where
  "noMatchPrompt m =
     ''You are an assistant helping users explore robustness checks for a vote-by-mail study.''
   @ ''\<newline>\<newline>The user asked a question, but the best match has low confidence ''
   @ ''(similarity: '' @ toFixed 2 (similarity m) @ '').''
   @ ''\<newline>\<newline>Best available match: '' @ bestAvailable m
   @ ''\<newline>\<newline>'' @ availableAnalyses
   @ ''\<newline>\<newline>Respond briefly (2-3 sentences) by:''
   @ ''\<newline>1. Acknowledging you don'' @ [CHR 0x27]
   @ ''t have that exact analysis pre-computed''
   @ ''\<newline>2. Suggesting the closest available alternative OR explaining what analyses ''
   @ ''ARE available''"

text \<open>
  What the confident path shows for the matched record: \<^verbatim>\<open>generateResponse\<close> puts the
  baseline of the record's outcome into the narration prompt, and \<^verbatim>\<open>addMessage\<close> looks the
  baseline up again for the result preview and hands it to \<^verbatim>\<open>updateCoefPlot\<close>.
\<close>

record shown =
  shown_analysis :: analysis
  prompt_baseline :: "analysis option"
  preview_baseline :: "analysis option"
  shown_plot :: "coef_plot option"

definition generateResponse_baseline :: "analysis list \<Rightarrow> analysis \<Rightarrow> analysis option" where
  "generateResponse_baseline analyses a = getBaseline analyses (outcome a)"

definition addMessage ::
  "bool \<Rightarrow> analysis list \<Rightarrow> analysis \<Rightarrow> analysis option \<times> coef_plot option" where
  "addMessage container analyses a =
     (let baseline = getBaseline analyses (outcome a)
      in (baseline, updateCoefPlot container baseline a (outcomeLabel a)))"

text \<open>
  The outcomes of \<^verbatim>\<open>handleQuery\<close>: nothing happens on an empty input; the limit message;
  the fallback narration with its prompt; the confident path with what it shows; the
  message of the \<^verbatim>\<open>catch\<close> block, which is where a \<^verbatim>\<open>TypeError\<close> of
  \<^verbatim>\<open>generateResponse\<close> on a \<^verbatim>\<open>null\<close> record would end. The text that the narration
  endpoint returns is outside the program.
\<close>

datatype reply =
    Ignored
  | LimitReached
  | NoGoodMatch string
  | GoodMatch shown
  | QueryFailed

text \<open>The branch on the threshold.\<close>

definition respond :: "bool \<Rightarrow> analysis list \<Rightarrow> match_result \<Rightarrow> reply" where
  "respond container analyses m =
     (if similarity m < SIMILARITY_THRESHOLD then NoGoodMatch (noMatchPrompt m)
      else
        (case match_analysis m of
           None \<Rightarrow> QueryFailed
         | Some a \<Rightarrow>
             (let (baseline, plot) = addMessage container analyses a
              in GoodMatch \<lparr>shown_analysis = a,
                             prompt_baseline = generateResponse_baseline analyses a,
                             preview_baseline = baseline,
                             shown_plot = plot\<rparr>)))"

text \<open>\<^verbatim>\<open>handleQuery\<close> with the query counter passed in and out.\<close>

definition handleQuery :: "bool \<Rightarrow> analysis list \<Rightarrow> nat \<Rightarrow> string \<Rightarrow> reply \<times> nat" where
  "handleQuery container analyses queryCount input =
     (let query = trim input
      in if query = [] then (Ignored, queryCount)
         else if queryCount \<ge> MAX_QUERIES_PER_HOUR then (LimitReached, queryCount)
         else (respond container analyses (findBestMatchKeyword analyses query),
               queryCount + 1))"



section \<open>Sample records and queries\<close>

text \<open>Records in the shape of the corpus, used where a statement is evaluated on a concrete
  input. The first one is the headline estimate of the planning document; the others
  differ from it in the fields named.\<close>

definition pooled_basic :: analysis where
  "pooled_basic =
     \<lparr>outcome = ''dem_share'', specification_of = ''basic'', state_filter = None,
      time_window = None, weighted = False, cluster = ''county'', success = True,
      coefficient = 0.024, std_error = 0.007, p_value = 0.001,
      ci_lower = Some 0.010, ci_upper = Some 0.038, n_obs = 2376, n_clusters = 126,
      description = Some ''Democratic Vote Share (1996-2024), Basic specification'',
      filter_desc = None\<rparr>"

definition exclude_CA_basic :: analysis where
  "exclude_CA_basic =
     pooled_basic\<lparr>state_filter := Some ''exclude_CA'', coefficient := 0.029,
                  std_error := 0.010, p_value := 0.004, ci_lower := None, ci_upper := None,
                  filter_desc := Some ''Excluding CA''\<rparr>"

definition CA_only_basic :: analysis where
  "CA_only_basic = pooled_basic\<lparr>state_filter := Some ''CA'', p_value := 0.04\<rparr>"

definition exclude_CA_original :: analysis where
  "exclude_CA_original = exclude_CA_basic\<lparr>time_window := Some (1996, 2018)\<rparr>"

definition turnout_basic :: analysis where
  "turnout_basic = pooled_basic\<lparr>outcome := ''turnout'', p_value := 0.08\<rparr>"

definition turnout_exclude_CA_original_weighted :: analysis where
  "turnout_exclude_CA_original_weighted =
     exclude_CA_original\<lparr>outcome := ''turnout'', weighted := True\<rparr>"

definition pooled_quadratic :: analysis where
  "pooled_quadratic = pooled_basic\<lparr>specification_of := ''quadratic'', p_value := 0.5\<rparr>"

definition turnout_quadratic :: analysis where
  "turnout_quadratic = turnout_basic\<lparr>specification_of := ''quadratic''\<rparr>"

definition senate_basic :: analysis where
  "senate_basic = pooled_basic\<lparr>outcome := ''dem_share_sen''\<rparr>"

definition failed_basic :: analysis where
  "failed_basic = pooled_basic\<lparr>success := False\<rparr>"

text \<open>A record whose outcome is none of the five relevant ones.\<close>

definition house_basic :: analysis where
  "house_basic = pooled_basic\<lparr>outcome := ''dem_share_house''\<rparr>"

definition third_party_query :: string where
  "third_party_query = ''What about third-party vote share?''"

definition excluded_query :: string where
  "excluded_query = ''What if we excluded California?''"

definition excluding_query :: string where
  "excluding_query = ''What about excluding California?''"

definition two_exclusions_query :: string where
  "two_exclusions_query = ''excluding California and excluding Utah''"

definition all_dimensions_query :: string where
  "all_dimensions_query = ''Weighted turnout excluding California, original 1996-2018''"

definition two_specifications_query :: string where
  "two_specifications_query = ''Compare the quadratic and the basic model''"

text \<open>The characters of the sample queries once in lower case, and of the patterns.\<close>

definition sample_chars :: string where
  "sample_chars = ''abcdefghijklmnopqrstuvwxyz0123456789 .?-_,''"

text \<open>The intent read from \<open>third_party_query\<close>.\<close>

definition pooled_targets :: targets where
  "pooled_targets = initial_targets\<lparr>targetOutcome := Some ''dem_share''\<rparr>"



definition trends_query :: string where
  "trends_query = ''linear or quadratic trends''"

text \<open>Which of the two narration paths a reply took.\<close>

definition is_fallback :: "reply \<Rightarrow> bool" where
  "is_fallback r = (case r of NoGoodMatch _ \<Rightarrow> True | _ \<Rightarrow> False)"





section \<open>Evaluating the matcher on the sample queries\<close>

subsection \<open>Character tables\<close>

lemma lower_char_table:
  "map lower_char ascii_upper = ascii_lower"
  "map lower_char sample_chars = sample_chars"
  by (simp_all add: lower_char_def ascii_lower_def ascii_upper_def latin1_upper_def
      latin1_lower_def sample_chars_def)

lemmas lower_char_simps =
  lower_char_table [unfolded ascii_lower_def ascii_upper_def sample_chars_def, simplified]

lemma canonicalize_table:
  "map canonicalize sample_chars = ascii_upper @ drop 26 sample_chars"
  by (simp add: canonicalize_def ascii_lower_def ascii_upper_def sample_chars_def)

lemmas canonicalize_simps =
  canonicalize_table [unfolded ascii_upper_def sample_chars_def, simplified]

lemma is_word_char_table:
  "list_all is_word_char (take 36 sample_chars @ ''_'')"
  "list_all (\<lambda>c. \<not> is_word_char c) '' .?-,''"
  by (simp_all add: is_word_char_def ascii_lower_def ascii_upper_def ascii_digits_def
      sample_chars_def)

lemmas is_word_char_simps = is_word_char_table [unfolded sample_chars_def, simplified]

lemma is_space_char_table:
  "list_all (\<lambda>c. is_space_char c = (c = CHR '' '')) sample_chars"
  by (simp add: is_space_char_def sample_chars_def)

lemmas is_space_char_simps = is_space_char_table [unfolded sample_chars_def, simplified]

lemma is_line_terminator_table:
  "list_all (\<lambda>c. \<not> is_line_terminator c) sample_chars"
  by (simp add: is_line_terminator_def sample_chars_def)

lemmas is_line_terminator_simps =
  is_line_terminator_table [unfolded sample_chars_def, simplified]

lemmas char_simps =
  lower_char_simps canonicalize_simps is_word_char_simps is_space_char_simps
  is_line_terminator_simps

lemmas rx_defs =
  rx_exclude_CA_def rx_exclude_UT_def rx_exclude_WA_def rx_excl_CA_def rx_excl_UT_def
  rx_excl_WA_def rx_original_def rx_post_2018_def rx_without_2024_def rx_turnout_def
  rx_pres_def rx_gov_def rx_sen_def rx_vote_share_def rx_linear_def rx_quadratic_def
  rx_basic_def rx_weighted_def rx_state_CA_def rx_state_UT_def rx_state_WA_def

lemmas regex_simps = regex_test_def one_char_def word_before_def word_after_def Opt_def

lemmas interp_simps =
  first_pass_def second_pass_def apply_pattern_def patterns_def statePatterns_def rule_def
  initial_targets_def truthy_def not_exclude_def Let_def rx_defs regex_simps char_simps

lemma interpret_queryI:
  "toLowerCase q = ql \<Longrightarrow> first_pass ql patterns initial_targets = t \<Longrightarrow>
   second_pass ql t = t' \<Longrightarrow> interpret_query q = t'"
  by (simp add: interpret_query_def)


lemma interpret_excluded_query:
  "interpret_query excluded_query = initial_targets\<lparr>targetFilter := Some ''CA''\<rparr>"
  unfolding excluded_query_def
  apply (rule interpret_queryI)
    apply (simp add: toLowerCase_def char_simps)
   apply (simp add: interp_simps)
  apply (simp add: interp_simps)
  done


lemma interpret_two_exclusions_query:
  "interpret_query two_exclusions_query = initial_targets\<lparr>targetFilter := Some ''exclude_UT''\<rparr>"
  unfolding two_exclusions_query_def
  apply (rule interpret_queryI)
    apply (simp add: toLowerCase_def char_simps)
   apply (simp add: interp_simps)
  apply (simp add: interp_simps)
  done

lemma interpret_all_dimensions_query:
  "interpret_query all_dimensions_query =
     \<lparr>targetFilter = Some ''exclude_CA'', targetTime = Some (1996, 2018),
      targetOutcome = Some ''turnout'', targetWeighted = True, targetSpec = ''basic''\<rparr>"
  unfolding all_dimensions_query_def
  apply (rule interpret_queryI)
    apply (simp add: toLowerCase_def char_simps)
   apply (simp add: interp_simps)
  apply (simp add: interp_simps)
  done

lemma interpret_two_specifications_query:
  "interpret_query two_specifications_query = initial_targets"
  unfolding two_specifications_query_def
  apply (rule interpret_queryI)
    apply (simp add: toLowerCase_def char_simps)
   apply (simp add: interp_simps)
  apply (simp add: interp_simps)
  done




section \<open>Properties of the interpreter and the scoring loop\<close>

subsection \<open>One rule of the first pass, field by field\<close>

lemma apply_pattern_filter:
  "targetFilter (apply_pattern q t p) =
     (if regex_test (pat_regex p) q \<and> truthy (pat_filter p) then pat_filter p else targetFilter t)"
  by (simp add: apply_pattern_def Let_def split: option.splits)

lemma apply_pattern_time:
  "targetTime (apply_pattern q t p) =
     (if regex_test (pat_regex p) q \<and> pat_time p \<noteq> None then pat_time p else targetTime t)"
  by (simp add: apply_pattern_def Let_def split: option.splits)

lemma apply_pattern_outcome:
  "targetOutcome (apply_pattern q t p) =
     (if regex_test (pat_regex p) q \<and> truthy (pat_outcome p) \<and> \<not> truthy (targetOutcome t)
      then pat_outcome p else targetOutcome t)"
  by (simp add: apply_pattern_def Let_def split: option.splits)

lemma apply_pattern_weighted:
  "targetWeighted (apply_pattern q t p) =
     (regex_test (pat_regex p) q \<and> pat_weighted p = Some True \<or> targetWeighted t)"
  by (auto simp add: apply_pattern_def Let_def split: option.splits)

lemma apply_pattern_spec:
  "targetSpec (apply_pattern q t p) =
     (if regex_test (pat_regex p) q \<and> truthy (pat_spec p) then the (pat_spec p) else targetSpec t)"
  by (auto simp add: apply_pattern_def Let_def truthy_def split: option.splits)

lemma first_pass_snoc:
  "first_pass q (ps @ [p]) t = apply_pattern q (first_pass q ps t) p"
  by (simp add: first_pass_def)

lemma first_pass_Cons:
  "first_pass q (p # ps) t = first_pass q ps (apply_pattern q t p)"
  by (simp add: first_pass_def)

lemma first_pass_Nil: "first_pass q [] t = t"
  by (simp add: first_pass_def)

lemma first_pass_filter:
  "targetFilter (first_pass q ps t) =
     (case find (\<lambda>p. regex_test (pat_regex p) q \<and> truthy (pat_filter p)) (rev ps) of
        None \<Rightarrow> targetFilter t
      | Some p \<Rightarrow> pat_filter p)"
  by (induction ps rule: rev_induct)
     (simp_all add: first_pass_Nil first_pass_snoc apply_pattern_filter)

lemma first_pass_time:
  "targetTime (first_pass q ps t) =
     (case find (\<lambda>p. regex_test (pat_regex p) q \<and> pat_time p \<noteq> None) (rev ps) of
        None \<Rightarrow> targetTime t
      | Some p \<Rightarrow> pat_time p)"
  by (induction ps rule: rev_induct)
     (auto simp add: first_pass_Nil first_pass_snoc apply_pattern_time)

lemma first_pass_spec:
  "targetSpec (first_pass q ps t) =
     (case find (\<lambda>p. regex_test (pat_regex p) q \<and> truthy (pat_spec p)) (rev ps) of
        None \<Rightarrow> targetSpec t
      | Some p \<Rightarrow> the (pat_spec p))"
  by (induction ps rule: rev_induct)
     (simp_all add: first_pass_Nil first_pass_snoc apply_pattern_spec)

lemma first_pass_weighted:
  "targetWeighted (first_pass q ps t) \<longleftrightarrow>
     targetWeighted t \<or> (\<exists>p\<in>set ps. regex_test (pat_regex p) q \<and> pat_weighted p = Some True)"
  by (induction ps rule: rev_induct)
     (auto simp add: first_pass_Nil first_pass_snoc apply_pattern_weighted)

lemma first_pass_outcome:
  "targetOutcome (first_pass q ps t) =
     (if truthy (targetOutcome t) then targetOutcome t
      else case find (\<lambda>p. regex_test (pat_regex p) q \<and> truthy (pat_outcome p)) ps of
             None \<Rightarrow> targetOutcome t
           | Some p \<Rightarrow> pat_outcome p)"
  by (induction ps arbitrary: t)
     (auto simp add: first_pass_Nil first_pass_Cons apply_pattern_outcome split: option.splits)

subsection \<open>The scoring loop\<close>



lemma score_loop_no_relevant:
  "\<forall>a\<in>set as. outcome a \<notin> set relevantOutcomes \<Longrightarrow> score_loop t as best = best"
  by (induction as arbitrary: best) (auto simp: split_paired_all)

lemma score_loop_member:
  "score_loop t as (bm, bs) = (Some a, s) \<Longrightarrow>
   (bm = Some a \<and> bs = s) \<or>
   (a \<in> set as \<and> outcome a \<in> set relevantOutcomes \<and> score_of t a = s)"
  by (induction as arbitrary: bm bs) (auto split: if_splits)

subsection \<open>A match somewhere in the text\<close>

lemma search_here: "step r (p, s) \<noteq> [] \<Longrightarrow> search r p s"
  by (cases s) simp_all

lemma search_append:
  "step r (if pre = [] then p else Some (last pre), s) \<noteq> [] \<Longrightarrow> search r p (pre @ s)"
proof (induction pre arbitrary: p)
  case Nil
  then show ?case by (simp add: search_here)
next
  case (Cons c pre)
  then show ?case by (cases "pre = []") (auto simp: search_here)
qed

lemma excluding_california_step:
  assumes "case post of [] \<Rightarrow> True | c # _ \<Rightarrow> \<not> is_word_char c"
  shows "step rx_exclude_CA (p, ''excluding california'' @ post) \<noteq> []"
  using assms
  by (cases post) (simp_all add: rx_exclude_CA_def regex_simps char_simps)

lemma excluding_california_fires:
  assumes "ql = pre @ ''excluding california'' @ post"
    and "case post of [] \<Rightarrow> True | c # _ \<Rightarrow> \<not> is_word_char c"
  shows "regex_test rx_exclude_CA ql"
  unfolding regex_test_def assms(1)
  by (rule search_append) (rule excluding_california_step [OF assms(2)])



subsection \<open>Confidence and the two narration paths\<close>






lemma handleQuery_answers:
  "trim input \<noteq> [] \<Longrightarrow> n < MAX_QUERIES_PER_HOUR \<Longrightarrow>
   handleQuery c analyses n input =
     (respond c analyses (findBestMatchKeyword analyses (trim input)), n + 1)"
  by (simp add: handleQuery_def Let_def)

lemma trim_third_party_query: "trim third_party_query = third_party_query"
  by code_simp




subsection \<open>Scores of the sample records\<close>

lemmas sample_defs =
  pooled_basic_def exclude_CA_basic_def CA_only_basic_def exclude_CA_original_def
  turnout_basic_def turnout_exclude_CA_original_weighted_def pooled_quadratic_def
  turnout_quadratic_def senate_basic_def failed_basic_def house_basic_def

lemmas score_simps =
  score_of_def relevantOutcomes_def truthy_def initial_targets_def pooled_targets_def



lemma interpret_trends_query:
  "interpret_query trends_query = initial_targets\<lparr>targetSpec := ''quadratic''\<rparr>"
  unfolding trends_query_def
  apply (rule interpret_queryI)
    apply (simp add: toLowerCase_def char_simps)
   apply (simp add: interp_simps)
  apply (simp add: interp_simps)
  done

lemma state_loop_other_fields:
  "targetTime (state_loop q ps t) = targetTime t"
  "targetOutcome (state_loop q ps t) = targetOutcome t"
  "targetWeighted (state_loop q ps t) = targetWeighted t"
  "targetSpec (state_loop q ps t) = targetSpec t"
  by (induction ps) simp_all

lemma second_pass_other_fields:
  "targetTime (second_pass q t) = targetTime t"
  "targetOutcome (second_pass q t) = targetOutcome t"
  "targetWeighted (second_pass q t) = targetWeighted t"
  "targetSpec (second_pass q t) = targetSpec t"
  by (simp_all add: second_pass_def state_loop_other_fields)

lemma second_pass_exclude:
  "\<not> not_exclude (targetFilter t) \<Longrightarrow> second_pass q t = t"
  by (simp add: second_pass_def)

lemma filter_rules_exclude:
  "p \<in> set patterns \<Longrightarrow> truthy (pat_filter p) \<Longrightarrow>
   pat_filter p \<in> {Some ''exclude_CA'', Some ''exclude_UT'', Some ''exclude_WA''}"
  by (auto simp add: patterns_def rule_def truthy_def)

lemma find_SomeD: "find P xs = Some x \<Longrightarrow> x \<in> set xs \<and> P x"
  by (induction xs) (auto split: if_splits)



subsection \<open>Digits and fixed notation\<close>







lemma toFixed_samples:
  "toFixed 3 0.029 = ''0.029''" "toFixed 3 0.010 = ''0.010''" "toFixed 4 0.029 = ''0.0290''"
  by code_simp+



subsection \<open>The horizontal scale of the plot\<close>

lemma or_else_nonempty: "d \<noteq> [] \<Longrightarrow> or_else v d \<noteq> []"
  by (simp add: or_else_def split: option.splits)

lemma or_else_idem: "d \<noteq> [] \<Longrightarrow> or_else (Some (or_else v d)) e = or_else v d"
  using or_else_nonempty [of d v] by (simp add: or_else_def)

lemma scale_eq:
  "scale lo hi v = 160 + (v - lo) / (hi - lo) * 160"
  by (simp add: scale_def margin_left_def plotWidth_def width_def margin_right_def)

lemma scale_left:
  assumes "lo < v" "lo < hi"
  shows "160 < scale lo hi v"
proof -
  define t where "t = (v - lo) / (hi - lo)"
  have "0 < t"
    unfolding t_def using assms by simp
  moreover have "scale lo hi v = 160 + t * 160"
    by (simp add: scale_eq t_def)
  ultimately show ?thesis by simp
qed

lemma scale_right:
  assumes "v < hi" "lo < hi"
  shows "scale lo hi v < 320"
proof -
  define t where "t = (v - lo) / (hi - lo)"
  have "t < 1"
    unfolding t_def using assms by (simp add: field_simps)
  moreover have "scale lo hi v = 160 + t * 160"
    by (simp add: scale_eq t_def)
  ultimately show ?thesis by simp
qed

lemma scale_ends:
  assumes "lo < hi"
  shows "scale lo hi lo = 160" "scale lo hi hi = 320"
  using assms by (simp_all add: scale_eq)



section \<open>The claims of the specification\<close>








text \<open>
  C2. The claim is that ``What if we excluded California?'' selects the record
  \<open>exclude_CA_basic\<close> with a confidence of at least 0.5. The exclusion rules accept
  ``exclude'' and ``excluding'' followed by the state, not ``excluded'': none of them fires,
  the plain state rule reads ``california'' as the filter \<open>CA\<close>, and the record that
  excludes California scores 2 + 1 + 1 + 3 = 7 of 30. Alone in the corpus it is returned
  with the confidence 7/30, below the threshold; next to the California-only record it
  loses to that one, which scores 17.
\<close>

theorem excluded_california_is_read_as_CA_only:
  "targetFilter (interpret_query excluded_query) = Some ''CA'' \<and>
   findBestMatchKeyword [exclude_CA_basic] excluded_query =
     \<lparr>match_analysis = Some exclude_CA_basic, similarity = 7 / 30\<rparr> \<and>
   7 / 30 < SIMILARITY_THRESHOLD \<and>
   findBestMatchKeyword [exclude_CA_basic, CA_only_basic] excluded_query =
     \<lparr>match_analysis = Some CA_only_basic, similarity = 17 / 30\<rparr>"
proof -
  have 1: "targetFilter (interpret_query excluded_query) = Some ''CA''"
    by (simp add: interpret_excluded_query)
  have 2: "findBestMatchKeyword [exclude_CA_basic] excluded_query =
     \<lparr>match_analysis = Some exclude_CA_basic, similarity = 7 / 30\<rparr>"
    by (simp add: findBestMatchKeyword_def interpret_excluded_query maxPossibleScore_def
        score_simps sample_defs)
  have 3: "7 / 30 < SIMILARITY_THRESHOLD"
    by (simp add: SIMILARITY_THRESHOLD_def)
  have 4: "findBestMatchKeyword [exclude_CA_basic, CA_only_basic] excluded_query =
     \<lparr>match_analysis = Some CA_only_basic, similarity = 17 / 30\<rparr>"
    by (simp add: findBestMatchKeyword_def interpret_excluded_query maxPossibleScore_def
        score_simps sample_defs)
  from 1 2 3 4 show ?thesis by simp
qed



text \<open>
  C3. The claim is that the confidence lies in the interval from 0 to 1. The divisor 30 is
  not the highest score: a record that agrees with the intent on the state filter, the time
  window, the outcome, the weighting and the specification scores 10 + 10 + 10 + 5 + 3 = 38,
  and the confidence is 38/30.
\<close>

theorem confidence_exceeds_one:
  "findBestMatchKeyword [turnout_exclude_CA_original_weighted] all_dimensions_query =
     \<lparr>match_analysis = Some turnout_exclude_CA_original_weighted, similarity = 19 / 15\<rparr> \<and>
   1 < similarity
         (findBestMatchKeyword [turnout_exclude_CA_original_weighted] all_dimensions_query)"
proof -
  have "findBestMatchKeyword [turnout_exclude_CA_original_weighted] all_dimensions_query =
     \<lparr>match_analysis = Some turnout_exclude_CA_original_weighted, similarity = 19 / 15\<rparr>"
    by (simp add: findBestMatchKeyword_def interpret_all_dimensions_query maxPossibleScore_def
        score_simps sample_defs)
  then show ?thesis by simp
qed



text \<open>
  C4 as stated fails: a filter rule assigns unconditionally, so a later exclusion rule
  overwrites an earlier one. In ``excluding California and excluding Utah'' both fire, and
  the state filter is that of the Utah rule, the later one in the list.
\<close>

theorem later_exclusion_overwrites_counterexample:
  "two_exclusions_query = ''excluding California'' @ '' and excluding Utah'' \<and>
   targetFilter (interpret_query two_exclusions_query) = Some ''exclude_UT'' \<and>
   targetFilter (interpret_query two_exclusions_query) \<noteq> Some ''exclude_CA''"
  by (simp add: interpret_two_exclusions_query) (simp add: two_exclusions_query_def)

text \<open>
  C4, amended. For every text that contains ``excluding california'' in any letter case,
  not followed by a letter, a digit or an underscore, the interpreted state filter is one
  of the three exclusion filters and never the inclusion filter \<open>CA\<close>: the exclusion rule
  fires in the first pass, and the second pass leaves an exclusion filter alone. The filter
  is \<open>exclude_CA\<close> unless an exclusion rule for Utah or Washington fires as well.
\<close>

theorem exclusion_dominates_inclusion:
  assumes "toLowerCase query = pre @ ''excluding california'' @ post"
    and "case post of [] \<Rightarrow> True | c # _ \<Rightarrow> \<not> is_word_char c"
  shows "targetFilter (interpret_query query)
           \<in> {Some ''exclude_CA'', Some ''exclude_UT'', Some ''exclude_WA''} \<and>
         targetFilter (interpret_query query) \<noteq> Some ''CA'' \<and>
         (\<not> regex_test rx_exclude_UT (toLowerCase query) \<and>
          \<not> regex_test rx_exclude_WA (toLowerCase query) \<and>
          \<not> regex_test rx_excl_UT (toLowerCase query) \<and>
          \<not> regex_test rx_excl_WA (toLowerCase query) \<longrightarrow>
          targetFilter (interpret_query query) = Some ''exclude_CA'')"
proof -
  let ?q = "toLowerCase query"
  let ?P = "\<lambda>p. regex_test (pat_regex p) ?q \<and> truthy (pat_filter p)"
  let ?t = "first_pass ?q patterns initial_targets"
  let ?first = "(rule rx_exclude_CA)\<lparr>pat_filter := Some ''exclude_CA''\<rparr>"
  have fires: "regex_test rx_exclude_CA ?q"
    by (rule excluding_california_fires [OF assms])
  have "?P ?first"
    using fires by (simp add: rule_def truthy_def)
  moreover have "?first \<in> set (rev patterns)"
    by (simp add: patterns_def)
  ultimately have "\<exists>x. x \<in> set (rev patterns) \<and> ?P x"
    by blast
  then have "find ?P (rev patterns) \<noteq> None"
    unfolding find_None_iff by blast
  then obtain p where p: "find ?P (rev patterns) = Some p"
    by blast
  then have pin: "p \<in> set patterns" and pfires: "regex_test (pat_regex p) ?q"
    and ptruthy: "truthy (pat_filter p)"
    by (auto dest: find_SomeD)
  have first: "targetFilter ?t = pat_filter p"
    by (simp add: first_pass_filter p)
  have range: "pat_filter p \<in> {Some ''exclude_CA'', Some ''exclude_UT'', Some ''exclude_WA''}"
    using pin ptruthy by (rule filter_rules_exclude)
  then have "\<not> not_exclude (targetFilter ?t)"
    unfolding first by (auto simp add: not_exclude_def)
  then have "second_pass ?q ?t = ?t"
    by (rule second_pass_exclude)
  then have final: "targetFilter (interpret_query query) = pat_filter p"
    by (simp add: interpret_query_def first)
  have 1: "targetFilter (interpret_query query)
           \<in> {Some ''exclude_CA'', Some ''exclude_UT'', Some ''exclude_WA''}"
    unfolding final by (rule range)
  then have 2: "targetFilter (interpret_query query) \<noteq> Some ''CA''"
    by auto
  have 3: "targetFilter (interpret_query query) = Some ''exclude_CA''"
    if "\<not> regex_test rx_exclude_UT ?q \<and> \<not> regex_test rx_exclude_WA ?q \<and>
        \<not> regex_test rx_excl_UT ?q \<and> \<not> regex_test rx_excl_WA ?q"
    using that pin pfires ptruthy unfolding final
    by (auto simp add: patterns_def rule_def truthy_def)
  from 1 2 3 show ?thesis by blast
qed

theorem exclusion_dominates_inclusion_witness:
  "toLowerCase excluding_query = ''what about '' @ ''excluding california'' @ ''?'' \<and>
   \<not> is_word_char CHR ''?'' \<and>
   targetFilter (interpret_query excluding_query) = Some ''exclude_CA'' \<and>
   targetFilter (interpret_query excluding_query) \<noteq> Some ''CA''"
proof -
  have l: "toLowerCase excluding_query = ''what about '' @ ''excluding california'' @ ''?''"
    by (simp add: excluding_query_def toLowerCase_def char_simps)
  have w: "case ''?'' of [] \<Rightarrow> True | c # _ \<Rightarrow> \<not> is_word_char c"
    by (simp add: char_simps)
  have none: "\<not> regex_test rx_exclude_UT (toLowerCase excluding_query) \<and>
      \<not> regex_test rx_exclude_WA (toLowerCase excluding_query) \<and>
      \<not> regex_test rx_excl_UT (toLowerCase excluding_query) \<and>
      \<not> regex_test rx_excl_WA (toLowerCase excluding_query)"
    unfolding l by (simp add: rx_defs regex_simps char_simps)
  from exclusion_dominates_inclusion [OF l w] none
  have "targetFilter (interpret_query excluding_query) = Some ''exclude_CA''"
    and "targetFilter (interpret_query excluding_query) \<noteq> Some ''CA''"
    by blast+
  with l show ?thesis by (simp add: char_simps)
qed







text \<open>
  C6 as stated fails: the specification is assigned without a guard, like the filter, the
  time window and the weighting. A text with ``quadratic'' and ``basic'' gets the
  specification basic, and one with ``linear'' and ``quadratic'' gets quadratic: the rule
  listed later wins.
\<close>

theorem later_specification_wins_counterexample:
  "patterns ! 14 = (rule rx_linear)\<lparr>pat_spec := Some ''linear''\<rparr> \<and>
   patterns ! 15 = (rule rx_quadratic)\<lparr>pat_spec := Some ''quadratic''\<rparr> \<and>
   patterns ! 16 = (rule rx_basic)\<lparr>pat_spec := Some ''basic''\<rparr> \<and>
   regex_test rx_quadratic (toLowerCase two_specifications_query) \<and>
   regex_test rx_basic (toLowerCase two_specifications_query) \<and>
   targetSpec (interpret_query two_specifications_query) = ''basic'' \<and>
   regex_test rx_linear (toLowerCase trends_query) \<and>
   regex_test rx_quadratic (toLowerCase trends_query) \<and>
   targetSpec (interpret_query trends_query) = ''quadratic''"
proof -
  have l1: "toLowerCase two_specifications_query = ''compare the quadratic and the basic model''"
    by (simp add: two_specifications_query_def toLowerCase_def char_simps)
  have l2: "toLowerCase trends_query = ''linear or quadratic trends''"
    by (simp add: trends_query_def toLowerCase_def char_simps)
  have p: "patterns ! 14 = (rule rx_linear)\<lparr>pat_spec := Some ''linear''\<rparr>"
    "patterns ! 15 = (rule rx_quadratic)\<lparr>pat_spec := Some ''quadratic''\<rparr>"
    "patterns ! 16 = (rule rx_basic)\<lparr>pat_spec := Some ''basic''\<rparr>"
    by (simp_all add: patterns_def)
  have r1: "regex_test rx_quadratic ''compare the quadratic and the basic model''"
    by (simp add: rx_quadratic_def regex_simps char_simps)
  have r2: "regex_test rx_basic ''compare the quadratic and the basic model''"
    by (simp add: rx_basic_def regex_simps char_simps)
  have r3: "regex_test rx_linear ''linear or quadratic trends''"
    by (simp add: rx_linear_def regex_simps char_simps)
  have r4: "regex_test rx_quadratic ''linear or quadratic trends''"
    by (simp add: rx_quadratic_def regex_simps char_simps)
  have s1: "targetSpec (interpret_query two_specifications_query) = ''basic''"
    by (simp add: interpret_two_specifications_query initial_targets_def)
  have s2: "targetSpec (interpret_query trends_query) = ''quadratic''"
    by (simp add: interpret_trends_query)
  from p r1 r2 r3 r4 s1 s2 show ?thesis
    unfolding l1 l2 by (intro conjI)
qed

text \<open>
  C6, amended. Within the first pass over the ordered rule list, the outcome alone keeps the
  value of the earliest matching rule (and a value it had before the pass); the state
  filter, the time window and the specification end with the value of the last matching
  rule of their dimension, and the weighting is set as soon as one weighting rule matches.
  For the interpreter this means: the outcome is that of the first matching outcome rule,
  the specification that of the last matching specification rule, basic if there is none.
\<close>

theorem first_pass_assignment_order:
  "targetOutcome (first_pass q ps t) =
     (if truthy (targetOutcome t) then targetOutcome t
      else case find (\<lambda>p. regex_test (pat_regex p) q \<and> truthy (pat_outcome p)) ps of
             None \<Rightarrow> targetOutcome t
           | Some p \<Rightarrow> pat_outcome p) \<and>
   targetFilter (first_pass q ps t) =
     (case find (\<lambda>p. regex_test (pat_regex p) q \<and> truthy (pat_filter p)) (rev ps) of
        None \<Rightarrow> targetFilter t
      | Some p \<Rightarrow> pat_filter p) \<and>
   targetTime (first_pass q ps t) =
     (case find (\<lambda>p. regex_test (pat_regex p) q \<and> pat_time p \<noteq> None) (rev ps) of
        None \<Rightarrow> targetTime t
      | Some p \<Rightarrow> pat_time p) \<and>
   targetSpec (first_pass q ps t) =
     (case find (\<lambda>p. regex_test (pat_regex p) q \<and> truthy (pat_spec p)) (rev ps) of
        None \<Rightarrow> targetSpec t
      | Some p \<Rightarrow> the (pat_spec p)) \<and>
   (targetWeighted (first_pass q ps t) \<longleftrightarrow>
      targetWeighted t \<or>
      (\<exists>p\<in>set ps. regex_test (pat_regex p) q \<and> pat_weighted p = Some True)) \<and>
   targetOutcome (interpret_query query) =
     (case find (\<lambda>p. regex_test (pat_regex p) (toLowerCase query) \<and> truthy (pat_outcome p))
             patterns of
        None \<Rightarrow> None
      | Some p \<Rightarrow> pat_outcome p) \<and>
   targetSpec (interpret_query query) =
     (case find (\<lambda>p. regex_test (pat_regex p) (toLowerCase query) \<and> truthy (pat_spec p))
             (rev patterns) of
        None \<Rightarrow> ''basic''
      | Some p \<Rightarrow> the (pat_spec p))"
proof -
  have i: "targetOutcome initial_targets = None" "targetSpec initial_targets = ''basic''"
    "truthy None = False"
    by (simp_all add: initial_targets_def truthy_def)
  have o: "targetOutcome (interpret_query query) =
     (case find (\<lambda>p. regex_test (pat_regex p) (toLowerCase query) \<and> truthy (pat_outcome p))
             patterns of
        None \<Rightarrow> None
      | Some p \<Rightarrow> pat_outcome p)"
    unfolding interpret_query_def Let_def second_pass_other_fields first_pass_outcome i
    by simp
  have s: "targetSpec (interpret_query query) =
     (case find (\<lambda>p. regex_test (pat_regex p) (toLowerCase query) \<and> truthy (pat_spec p))
             (rev patterns) of
        None \<Rightarrow> ''basic''
      | Some p \<Rightarrow> the (pat_spec p))"
    unfolding interpret_query_def Let_def second_pass_other_fields first_pass_spec i
    by simp
  from first_pass_outcome [of q ps t] first_pass_filter [of q ps t] first_pass_time [of q ps t]
    first_pass_spec [of q ps t] first_pass_weighted [of q ps t] o s
  show ?thesis by (intro conjI)
qed

theorem first_pass_assignment_order_witness:
  "targetSpec (interpret_query trends_query) = ''quadratic'' \<and>
   targetOutcome (interpret_query trends_query) = None"
proof -
  let ?q = "''linear or quadratic trends''"
  have l: "toLowerCase trends_query = ?q"
    by (simp add: trends_query_def toLowerCase_def char_simps)
  have r: "regex_test rx_linear ?q" "regex_test rx_quadratic ?q" "\<not> regex_test rx_basic ?q"
    "\<not> regex_test rx_turnout ?q" "\<not> regex_test rx_pres ?q" "\<not> regex_test rx_gov ?q"
    "\<not> regex_test rx_sen ?q" "\<not> regex_test rx_vote_share ?q"
    by (simp_all add: rx_defs regex_simps char_simps)
  have f1: "find (\<lambda>p. regex_test (pat_regex p) ?q \<and> truthy (pat_spec p)) (rev patterns)
      = Some ((rule rx_quadratic)\<lparr>pat_spec := Some ''quadratic''\<rparr>)"
    by (simp add: patterns_def rule_def truthy_def r)
  have f2: "find (\<lambda>p. regex_test (pat_regex p) ?q \<and> truthy (pat_outcome p)) patterns = None"
    by (simp add: patterns_def rule_def truthy_def r)
  note inst = first_pass_assignment_order [of _ _ _ trends_query, unfolded l f1 f2]
  from inst [THEN conjunct2, THEN conjunct2, THEN conjunct2, THEN conjunct2, THEN conjunct2]
  show ?thesis by (simp add: rule_def)
qed











text \<open>
  C9. When the baseline of the matched record's outcome is absent from the corpus,
  \<^verbatim>\<open>addMessage\<close> still hands the matched record to \<^verbatim>\<open>updateCoefPlot\<close>, and the plot is
  rendered with one row, that of the matched record: in the second row's place, labelled
  with the record's filter description (``This specification'' without one), with its
  coefficient to four decimals and its stars. The rendering is well defined: the two ends of
  the axis differ, so the ticks stand at 160, at the zero line and at 320, and the zero
  line, the lower end of the interval and its upper end are placed by a division that is
  not by zero.
\<close>

theorem single_row_plot_without_baseline:
  assumes "getBaseline analyses (outcome a) = None"
  shows "\<exists>plot row.
           snd (addMessage True analyses a) = Some plot \<and>
           updateCoefPlot True None a (outcomeLabel a) = Some plot \<and>
           plot_rows plot = [row] \<and> plot_height plot = 100 \<and> caption plot = outcomeLabel a \<and>
           row_label row = or_else (filter_desc a) ''This specification'' \<and> row_y row = 60 \<and>
           value_text row = toFixed 4 (coefficient a) @ getSignificanceStars (Some a) \<and>
           160 < x_lower row \<and> x_upper row < 320 \<and>
           map fst (ticks plot) = [160, zero_x plot, 320] \<and>
           160 < zero_x plot \<and> zero_x plot < 320"
proof -
  define lo where "lo = min (lower_of a) 0 - 0.01"
  define hi where "hi = max (upper_of a) 0 + 0.01"
  define row where
    "row = draw_row (scale lo hi) (or_else (filter_desc a) ''This specification'') row2Y a"
  define plot where
    "plot = \<lparr>plot_width = width, plot_height = 100, zero_x = scale lo hi 0, plot_rows = [row],
             ticks = map (\<lambda>tick. (scale lo hi tick, toFixed 3 tick)) [lo, 0, hi],
             caption = outcomeLabel a\<rparr>"
  have u: "updateCoefPlot True None a (outcomeLabel a) = Some plot"
    by (simp add: updateCoefPlot_def renderCoefPlot_def present_def Let_def or_else_idem
        plot_def row_def lo_def hi_def)
  have m: "snd (addMessage True analyses a) = Some plot"
    by (simp add: addMessage_def Let_def assms u)
  have ends: "lo < hi" "lo < 0" "0 < hi" "lo < lower_of a" "upper_of a < hi"
    by (simp_all add: lo_def hi_def)
  have z: "160 < scale lo hi 0" "scale lo hi 0 < 320"
    using ends by (simp_all add: scale_left scale_right)
  have x: "160 < scale lo hi (lower_of a)" "scale lo hi (upper_of a) < 320"
    using ends by (simp_all add: scale_left scale_right)
  have r: "row_label row = or_else (filter_desc a) ''This specification''" "row_y row = 60"
    "value_text row = toFixed 4 (coefficient a) @ getSignificanceStars (Some a)"
    "x_lower row = scale lo hi (lower_of a)" "x_upper row = scale lo hi (upper_of a)"
    by (simp_all add: row_def draw_row_def row2Y_def margin_top_def)
  have p: "plot_rows plot = [row]" "plot_height plot = 100" "caption plot = outcomeLabel a"
    "zero_x plot = scale lo hi 0" "map fst (ticks plot) = [160, zero_x plot, 320]"
    using scale_ends [OF ends(1)] by (simp_all add: plot_def)
  from m u p r z x show ?thesis
    by (intro exI [of _ plot] exI [of _ row]) simp
qed

theorem single_row_plot_without_baseline_witness:
  "getBaseline [pooled_basic] (outcome exclude_CA_basic) = None \<and>
   map row_label (plot_rows (the (snd (addMessage True [pooled_basic] exclude_CA_basic))))
     = [''Excluding CA''] \<and>
   map value_text (plot_rows (the (snd (addMessage True [pooled_basic] exclude_CA_basic))))
     = [''0.0290***'']"
proof -
  have b: "getBaseline [pooled_basic] (outcome exclude_CA_basic) = None"
    by (simp add: getBaseline_def findAnalysis_def sample_defs)
  have f: "or_else (filter_desc exclude_CA_basic) ''This specification'' = ''Excluding CA''"
    by (simp add: or_else_def sample_defs)
  have c: "coefficient exclude_CA_basic = 0.029" "p_value exclude_CA_basic = 0.004"
    by (simp_all add: sample_defs)
  have v: "toFixed 4 (coefficient exclude_CA_basic) @ getSignificanceStars (Some exclude_CA_basic)
      = ''0.0290***''"
    unfolding getSignificanceStars_def option.case Let_def c toFixed_samples by simp
  from single_row_plot_without_baseline [OF b]
  obtain plot row where
    "snd (addMessage True [pooled_basic] exclude_CA_basic) = Some plot"
    "plot_rows plot = [row]"
    "row_label row = or_else (filter_desc exclude_CA_basic) ''This specification''"
    "value_text row =
       toFixed 4 (coefficient exclude_CA_basic) @ getSignificanceStars (Some exclude_CA_basic)"
    by blast
  with b f v show ?thesis by simp
qed


text \<open>
  C10. If no record of the corpus has one of the five relevant outcomes (an empty corpus, for
  one), \<^verbatim>\<open>findBestMatchKeyword\<close> returns no record and the confidence 0, for every query;
  \<^verbatim>\<open>handleQuery\<close> then takes the fallback path, and the prompt it builds from the missing
  record reads ``None found'' and ``0.00''.
\<close>

theorem no_relevant_record_falls_back:
  assumes "\<forall>a\<in>set analyses. outcome a \<notin> set relevantOutcomes"
  shows "findBestMatchKeyword analyses query = \<lparr>match_analysis = None, similarity = 0\<rparr> \<and>
    (trim input \<noteq> [] \<and> n < MAX_QUERIES_PER_HOUR \<longrightarrow>
       handleQuery c analyses n input =
         (NoGoodMatch (noMatchPrompt \<lparr>match_analysis = None, similarity = 0\<rparr>), n + 1)) \<and>
    noMatchPrompt \<lparr>match_analysis = None, similarity = 0\<rparr> =
       ''You are an assistant helping users explore robustness checks for a vote-by-mail study.''
     @ ''\<newline>\<newline>The user asked a question, but the best match has low confidence ''
     @ ''(similarity: 0.00).''
     @ ''\<newline>\<newline>Best available match: None found''
     @ ''\<newline>\<newline>'' @ availableAnalyses
     @ ''\<newline>\<newline>Respond briefly (2-3 sentences) by:''
     @ ''\<newline>1. Acknowledging you don'' @ [CHR 0x27]
     @ ''t have that exact analysis pre-computed''
     @ ''\<newline>2. Suggesting the closest available alternative OR explaining what analyses ''
     @ ''ARE available''"
proof -
  have m: "findBestMatchKeyword analyses q = \<lparr>match_analysis = None, similarity = 0\<rparr>" for q
    by (simp add: findBestMatchKeyword_def score_loop_no_relevant [OF assms])
  have r: "respond c analyses \<lparr>match_analysis = None, similarity = 0\<rparr> =
      NoGoodMatch (noMatchPrompt \<lparr>match_analysis = None, similarity = 0\<rparr>)"
    by (simp add: respond_def SIMILARITY_THRESHOLD_def)
  have t: "toFixed 2 0 = ''0.00''"
    by (simp add: toFixed_def Let_def)
  show ?thesis
    by (simp add: m r handleQuery_answers noMatchPrompt_def bestAvailable_def t)
qed

theorem no_relevant_record_falls_back_witness:
  "outcome house_basic \<notin> set relevantOutcomes \<and>
   findBestMatchKeyword [house_basic] third_party_query
     = \<lparr>match_analysis = None, similarity = 0\<rparr> \<and>
   is_fallback (fst (handleQuery True [house_basic] 7 third_party_query))"
proof -
  have h: "\<forall>a\<in>set [house_basic]. outcome a \<notin> set relevantOutcomes"
    by (simp add: house_basic_def pooled_basic_def relevantOutcomes_def)
  have t: "trim third_party_query \<noteq> [] \<and> (7::nat) < MAX_QUERIES_PER_HOUR"
    by (simp add: trim_third_party_query MAX_QUERIES_PER_HOUR_def) (simp add: third_party_query_def)
  note inst = no_relevant_record_falls_back [OF h, of third_party_query third_party_query 7 True]
  from inst have m: "findBestMatchKeyword [house_basic] third_party_query
     = \<lparr>match_analysis = None, similarity = 0\<rparr>"
    by (rule conjunct1)
  from inst t have "handleQuery True [house_basic] 7 third_party_query =
         (NoGoodMatch (noMatchPrompt \<lparr>match_analysis = None, similarity = 0\<rparr>), 7 + 1)"
    by blast
  then have "is_fallback (fst (handleQuery True [house_basic] 7 third_party_query))"
    by (simp add: is_fallback_def)
  with h m show ?thesis by simp
qed

end
